theory Spec2Isabelle
  imports Complex_Main
begin

section \<open>The test camera of microscope/testsuite/devices.py\<close>

text \<open>
  The development embeds the synthetic image generator (class \<open>_ImageGenerator\<close>) and the
  acquisition hooks of \<open>TestCamera\<close>. Python attributes lose their leading underscore, which
  an Isabelle name cannot carry. Every exception of the source is a value of \<open>error\<close>; a
  method that mutates its object returns the object next to its result, also when it
  raises, because a Python exception leaves the mutations made before it in place.

  Conventions for what lies outside the source file:
  \<^item> float64 arithmetic is taken as exact real arithmetic, with \<open>NaN\<close> where numpy yields nan
    (numpy warns on \<open>0/0\<close> and on \<open>x % 0\<close>, it does not raise);
  \<^item> a random draw is a function of a raw number supplied by the caller, onto exactly the
    range the library documents, so that each theorem quantifies over every outcome;
  \<^item> the bitmap font of PIL is a parameter: the size of a text and its ink.
\<close>

subsection \<open>Errors, numbers and arrays\<close>

datatype error =
    DisabledDeviceError
  | DeviceError
  | ValueError
  | IndexError
  | ZeroDivisionError

datatype fval = Fin real | NaN

type_synonym ndarray = "fval list list"

text \<open>Python's \<open>int(x)\<close> on a float truncates towards zero.\<close>

definition trunc :: "real \<Rightarrow> int" where
  "trunc r = (if 0 \<le> r then \<lfloor>r\<rfloor> else \<lceil>r\<rceil>)"

text \<open>Python's \<open>a % b\<close> on floats with \<open>b \<noteq> 0\<close>: the result has the sign of \<open>b\<close>.\<close>

definition fmod :: "real \<Rightarrow> real \<Rightarrow> real" where
  "fmod a b = a - b * of_int \<lfloor>a / b\<rfloor>"

text \<open>
  \<open>random.randint(a, b)\<close> returns \<open>N\<close> with \<open>a \<le> N \<le> b\<close>, both ends included;
  \<open>np.random.randint(low, high)\<close> returns \<open>N\<close> with \<open>low \<le> N < high\<close> and raises
  ValueError unless \<open>low < high\<close>.
\<close>

definition randint :: "int \<Rightarrow> int \<Rightarrow> nat \<Rightarrow> int" where
  "randint a b raw = a + int (raw mod nat (b - a + 1))"

definition np_randint :: "int \<Rightarrow> int \<Rightarrow> nat \<Rightarrow> error + int" where
  "np_randint low high raw =
     (if high \<le> low then Inl ValueError else Inr (low + int (raw mod nat (high - low))))"

text \<open>An array of \<open>h\<close> rows and \<open>w\<close> columns whose entry at column \<open>x\<close>, row \<open>y\<close> is \<open>f x y\<close>.\<close>

definition full :: "int \<Rightarrow> int \<Rightarrow> fval \<Rightarrow> error + ndarray" where
  \<comment> \<open>\<open>np.zeros((h, w))\<close>, \<open>np.ones((h, w))\<close>: a negative dimension raises ValueError.\<close>
  "full h w v =
     (if h < 0 \<or> w < 0 then Inl ValueError else Inr (replicate (nat h) (replicate (nat w) v)))"

definition grid :: "nat \<Rightarrow> nat \<Rightarrow> (nat \<Rightarrow> nat \<Rightarrow> fval) \<Rightarrow> ndarray" where
  "grid h w f = map (\<lambda>y. map (\<lambda>x. f x y) [0..<w]) [0..<h]"



text \<open>Indexing a tuple: negative indices count from the end, anything else raises.\<close>

definition tuple_get :: "'a list \<Rightarrow> int \<Rightarrow> error + 'a" where
  "tuple_get xs i =
     (if 0 \<le> i \<and> i < int (length xs) then Inr (xs ! nat i)
      else if i < 0 \<and> - int (length xs) \<le> i then Inr (xs ! nat (int (length xs) + i))
      else Inl IndexError)"

subsection \<open>Output types and the cast\<close>

datatype dtype = UInt8 | UInt16 | Float

definition datatypes_tuple :: "dtype list" where
  "datatypes_tuple = [UInt8, UInt16, Float]"

text \<open>\<open>np.iinfo(d).max\<close> for the two integer types.\<close>

fun iinfo_max :: "dtype \<Rightarrow> int" where
  "iinfo_max UInt8 = 255"
| "iinfo_max UInt16 = 65535"
| "iinfo_max Float = 0"

text \<open>
  \<open>astype(d)\<close> on one element. To an unsigned type numpy converts as C does: the fraction
  is dropped, and a value outside the type is reduced modulo \<open>2^w\<close> (what numpy does on
  x86-64, where nan becomes 0). \<open>fits d v\<close> says that the conversion of \<open>v\<close> keeps its
  truncated value, that is, nothing wraps.
\<close>

fun cast :: "dtype \<Rightarrow> fval \<Rightarrow> fval" where
  "cast Float v = v"
| "cast d NaN = Fin 0"
| "cast d (Fin r) = Fin (of_int (trunc r mod (iinfo_max d + 1)))"

definition astype :: "dtype \<Rightarrow> ndarray \<Rightarrow> ndarray" where
  "astype d a = map (map (cast d)) a"



subsection \<open>The phase generator\<close>

text \<open>
  \<open>_theta_generator\<close> is a Python generator: created unstarted, it yields 0 on the first
  \<open>next\<close>; resumed after a yield of \<open>th\<close> it computes \<open>(th + 0.01 * TWOPI) % TWOPI\<close>
  and yields that.
\<close>

datatype theta_generator = Unstarted | Suspended real

definition TWOPI :: real where
  "TWOPI = 2 * pi"

fun next_theta :: "theta_generator \<Rightarrow> real \<times> theta_generator" where
  "next_theta Unstarted = (0, Suspended 0)"
| "next_theta (Suspended th) =
     (let th' = fmod (th + 0.01 * TWOPI) TWOPI in (th', Suspended th'))"

subsection \<open>The image generator\<close>

text \<open>
  The font of PIL: \<open>getsize text\<close> is the (width, height) of the rendered text, and
  \<open>ink text x y\<close> says whether the text, drawn at the origin, covers column \<open>x\<close> of
  row \<open>y\<close>.
\<close>

record bitmap_font =
  getsize :: "string \<Rightarrow> nat \<times> nat"
  ink :: "string \<Rightarrow> nat \<Rightarrow> nat \<Rightarrow> bool"

datatype strategy = Noise | Gradient | Sawtooth | One_gaussian | Black | White

definition methods_tuple :: "strategy list" where
  "methods_tuple = [Noise, Gradient, Sawtooth, One_gaussian, Black, White]"

record image_generator =
  method_index :: int
  datatype_index :: int
  theta :: theta_generator
  numbering :: bool
  font :: bitmap_font

definition new_image_generator :: "bitmap_font \<Rightarrow> image_generator" where
  \<comment> \<open>\<open>_ImageGenerator.__init__\<close>\<close>
  "new_image_generator f =
     \<lparr>method_index = 0, datatype_index = 0, theta = Unstarted, numbering = True, font = f\<rparr>"

definition enable_numbering :: "image_generator \<Rightarrow> bool \<Rightarrow> image_generator" where
  "enable_numbering g enab = g\<lparr>numbering := enab\<rparr>"

definition set_data_type :: "image_generator \<Rightarrow> int \<Rightarrow> image_generator" where
  "set_data_type g i = g\<lparr>datatype_index := i\<rparr>"

definition set_method :: "image_generator \<Rightarrow> int \<Rightarrow> image_generator" where
  "set_method g i = g\<lparr>method_index := i\<rparr>"

text \<open>
  The random numbers one frame may consume, as raw material: \<open>fetch_raw\<close> for
  \<open>random.randint(0, 100)\<close>, \<open>rand_dark\<close> and \<open>rand_light\<close> for the two
  \<open>np.random.rand()\<close> (reals of \<open>[0, 1)\<close>), \<open>noise_raw y x\<close> for the pixel of row \<open>y\<close>
  and column \<open>x\<close>, \<open>x0_raw\<close> and \<open>y0_raw\<close> for the centre of the gaussian.
\<close>

record rng =
  fetch_raw :: nat
  rand_dark :: real
  rand_light :: real
  noise_raw :: "nat \<Rightarrow> nat \<Rightarrow> nat"
  x0_raw :: nat
  y0_raw :: nat

definition black :: "int \<Rightarrow> int \<Rightarrow> int \<Rightarrow> int \<Rightarrow> error + ndarray" where
  "black w h dark light = full h w (Fin 0)"

definition white :: "image_generator \<Rightarrow> int \<Rightarrow> int \<Rightarrow> int \<Rightarrow> int \<Rightarrow> error + ndarray" where
  \<comment> \<open>\<open>value * np.ones((h, w)).astype(d)\<close>: every entry is \<open>value * 1\<close>, computed in \<open>d\<close>.\<close>
  "white g w h dark light =
     (case tuple_get datatypes_tuple (datatype_index g) of
        Inl e \<Rightarrow> Inl e
      | Inr d \<Rightarrow>
          (let v = (if d \<noteq> Float then of_int (iinfo_max d) else 1)
           in full h w (Fin v)))"

definition gradient :: "int \<Rightarrow> int \<Rightarrow> int \<Rightarrow> int \<Rightarrow> error + ndarray" where
  \<comment> \<open>\<open>xx.max()\<close> raises ValueError on an empty grid. With \<open>w = h = 1\<close> the divisor is 0
      and the only dividend is \<open>light * 0\<close>: numpy yields nan.\<close>
  "gradient w h dark light =
     (if w \<le> 0 \<or> h \<le> 0 then Inl ValueError
      else
        (let den = (w - 1) + (h - 1)
         in Inr (grid (nat h) (nat w) (\<lambda>x y.
              if den = 0 then NaN
              else Fin (of_int dark + of_int (light * (int x + int y)) / of_int den)))))"

definition noise :: "rng \<Rightarrow> int \<Rightarrow> int \<Rightarrow> int \<Rightarrow> int \<Rightarrow> error + ndarray" where
  \<comment> \<open>\<open>np.random.randint(dark, light, size=(h, w))\<close>\<close>
  "noise r w h dark light =
     (if light \<le> dark \<or> h < 0 \<or> w < 0 then Inl ValueError
      else Inr (grid (nat h) (nat w) (\<lambda>x y.
             Fin (of_int (dark + int (noise_raw r y x mod nat (light - dark)))))))"

definition one_gaussian :: "rng \<Rightarrow> int \<Rightarrow> int \<Rightarrow> int \<Rightarrow> int \<Rightarrow> error + ndarray" where
  "one_gaussian r w h dark light =
     (let sigma = 0.01 * of_int (max w h)
      in case np_randint 0 w (x0_raw r) of
           Inl e \<Rightarrow> Inl e
         | Inr x0 \<Rightarrow>
            (case np_randint 0 h (y0_raw r) of
               Inl e \<Rightarrow> Inl e
             | Inr y0 \<Rightarrow>
                 Inr (grid (nat h) (nat w) (\<lambda>x y.
                   Fin (of_int dark + of_int light *
                     exp (- of_int ((int x - x0)\<^sup>2 + (int y - y0)\<^sup>2) / (2 * sigma\<^sup>2)))))))"

definition sawtooth_image :: "real \<Rightarrow> int \<Rightarrow> int \<Rightarrow> int \<Rightarrow> int \<Rightarrow> error + ndarray" where
  \<comment> \<open>The body of \<open>sawtooth\<close> after \<open>th = next(self._theta)\<close>. With \<open>w = h = 1\<close> the
      wrap is 0, and numpy yields nan for \<open>x % 0\<close>.\<close>
  "sawtooth_image th w h dark light =
     (if w \<le> 0 \<or> h \<le> 0 then Inl ValueError
      else
        (let wrap = 0.1 * of_int (max (w - 1) (h - 1))
         in Inr (grid (nat h) (nat w) (\<lambda>x y.
              if wrap = 0 then NaN
              else Fin (of_int dark + of_int light *
                     fmod (sin th * of_nat x + cos th * of_nat y) wrap / wrap)))))"

definition sawtooth ::
  "image_generator \<Rightarrow> int \<Rightarrow> int \<Rightarrow> int \<Rightarrow> int \<Rightarrow> (error + ndarray) \<times> image_generator" where
  "sawtooth g w h dark light =
     (let (th, t) = next_theta (theta g)
      in (sawtooth_image th w h dark light, g\<lparr>theta := t\<rparr>))"

text \<open>The call \<open>m(width, height, dark, light)\<close> of the selected bound method.\<close>

fun run_method ::
  "strategy \<Rightarrow> image_generator \<Rightarrow> rng \<Rightarrow> int \<Rightarrow> int \<Rightarrow> int \<Rightarrow> int
     \<Rightarrow> (error + ndarray) \<times> image_generator" where
  "run_method Noise g r w h dark light = (noise r w h dark light, g)"
| "run_method Gradient g r w h dark light = (gradient w h dark light, g)"
| "run_method Sawtooth g r w h dark light = sawtooth g w h dark light"
| "run_method One_gaussian g r w h dark light = (one_gaussian r w h dark light, g)"
| "run_method Black g r w h dark light = (black w h dark light, g)"
| "run_method White g r w h dark light = (white g w h dark light, g)"

subsection \<open>The frame counter overlay\<close>

text \<open>\<open>"%d" % index\<close>\<close>

fun digits :: "nat \<Rightarrow> string" where
  "digits n =
     (if n < 10 then [''0123456789'' ! n]
      else digits (n div 10) @ [''0123456789'' ! (n mod 10)])"

declare digits.simps [simp del]

definition format_d :: "int \<Rightarrow> string" where
  "format_d i = (if i < 0 then CHR ''-'' # digits (nat (- i)) else digits (nat i))"

text \<open>
  \<open>Image.new("L", size)\<close> is black; \<open>ctx.text((1, 1), text, fill=light)\<close> sets the ink of
  the text, moved by one pixel in both directions, to \<open>light\<close>, which an image of mode L
  clips to a byte. \<open>np.asarray(img)\<close> has \<open>size[1]\<close> rows and \<open>size[0]\<close> columns.
\<close>

definition clip8 :: "int \<Rightarrow> int" where
  "clip8 v = max 0 (min 255 v)"

definition text_size :: "bitmap_font \<Rightarrow> string \<Rightarrow> nat \<times> nat" where
  \<comment> \<open>\<open>tuple(d + 2 for d in self._font.getsize(text))\<close>\<close>
  "text_size f text = (fst (getsize f text) + 2, snd (getsize f text) + 2)"

definition text_image :: "bitmap_font \<Rightarrow> string \<Rightarrow> int \<Rightarrow> ndarray" where
  "text_image f text fill =
     grid (snd (text_size f text)) (fst (text_size f text)) (\<lambda>x y.
       if 1 \<le> x \<and> 1 \<le> y \<and> ink f text (x - 1) (y - 1) then Fin (of_int (clip8 fill))
       else Fin 0)"

text \<open>
  \<open>data[0:sh, 0:sw] = src\<close> for a \<open>src\<close> of \<open>sh\<close> rows and \<open>sw\<close> columns, both at least
  2, and a \<open>data\<close> of \<open>H\<close> rows and \<open>W\<close> columns. The slice has \<open>min sh H\<close> rows and
  \<open>min sw W\<close> columns; numpy broadcasts only a dimension of 1, so the assignment raises
  ValueError unless the source fits.
\<close>

definition paste :: "ndarray \<Rightarrow> nat \<Rightarrow> nat \<Rightarrow> ndarray \<Rightarrow> nat \<Rightarrow> nat \<Rightarrow> error + ndarray" where
  "paste data H W src sh sw =
     (if sh \<le> H \<and> sw \<le> W then
        Inr (grid H W (\<lambda>x y. if y < sh \<and> x < sw then src ! y ! x else data ! y ! x))
      else Inl ValueError)"

definition get_image ::
  "image_generator \<Rightarrow> rng \<Rightarrow> int \<Rightarrow> int \<Rightarrow> int \<Rightarrow> int \<Rightarrow> int option
     \<Rightarrow> (error + ndarray) \<times> image_generator" where
  "get_image g r w h dark light idx =
     (case tuple_get methods_tuple (method_index g) of
        Inl e \<Rightarrow> (Inl e, g)
      | Inr m \<Rightarrow>
         (case tuple_get datatypes_tuple (datatype_index g) of
            Inl e \<Rightarrow> (Inl e, g)
          | Inr d \<Rightarrow>
             (case run_method m g r w h dark light of
                (Inl e, g') \<Rightarrow> (Inl e, g')
              | (Inr raw, g') \<Rightarrow>
                 (let data = astype d raw
                  in case idx of
                       None \<Rightarrow> (Inr data, g')
                     | Some i \<Rightarrow>
                        if numbering g' then
                          (let text = format_d i;
                               size = text_size (font g') text
                           in (paste data (nat h) (nat w)
                                 (text_image (font g') text light) (snd size) (fst size), g'))
                        else (Inr data, g')))))"

subsection \<open>The test camera\<close>

record ROI =
  roi_left :: int
  roi_top :: int
  roi_width :: int
  roi_height :: int

record Binning =
  bin_h :: int
  bin_v :: int

record test_camera =
  initialized :: bool
  roi :: ROI
  binning :: Binning
  image_gen :: image_generator
  a_setting :: int
  error_percent :: int
  gain :: int
  intEnum :: int
  dictEnum :: int
  listEnum :: int
  tupleEnum :: int
  acquiring :: bool
  exposure_time :: real
  triggered :: int
  sent :: int

definition new_test_camera :: "bitmap_font \<Rightarrow> test_camera" where
  \<comment> \<open>\<open>TestCamera.__init__\<close>; the attribute \<open>_initialized\<close> does not exist yet.\<close>
  "new_test_camera f =
     \<lparr>initialized = False,
      roi = \<lparr>roi_left = 0, roi_top = 0, roi_width = 512, roi_height = 512\<rparr>,
      binning = \<lparr>bin_h = 1, bin_v = 1\<rparr>,
      image_gen = new_image_generator f,
      a_setting = 0, error_percent = 0, gain = 0,
      intEnum = 1, dictEnum = 0, listEnum = 0, tupleEnum = 0,
      acquiring = False, exposure_time = 0.1, triggered = 0, sent = 0\<rparr>"

definition must_be_initialized ::
  "(test_camera \<Rightarrow> (error + 'a) \<times> test_camera) \<Rightarrow> test_camera
     \<Rightarrow> (error + 'a) \<times> test_camera" where
  "must_be_initialized f s = (if initialized s then f s else (Inl DisabledDeviceError, s))"

definition set_error_percent :: "test_camera \<Rightarrow> int \<Rightarrow> test_camera" where
  "set_error_percent s v = s\<lparr>error_percent := v, a_setting := v div 10\<rparr>"

definition set_a_setting :: "test_camera \<Rightarrow> int \<Rightarrow> test_camera" where
  \<comment> \<open>the setter of "a\_setting": \<open>lambda val: setattr(self, "_a_setting", val)\<close>\<close>
  "set_a_setting s v = s\<lparr>a_setting := v\<rparr>"

definition set_gain :: "test_camera \<Rightarrow> int \<Rightarrow> test_camera" where
  "set_gain s v = s\<lparr>gain := v\<rparr>"

definition set_exposure_time :: "test_camera \<Rightarrow> real \<Rightarrow> test_camera" where
  "set_exposure_time s v = s\<lparr>exposure_time := v\<rparr>"

definition initialize :: "test_camera \<Rightarrow> test_camera" where
  "initialize s = s\<lparr>initialized := True\<rparr>"

definition create_buffers :: "test_camera \<Rightarrow> (error + unit) \<times> test_camera" where
  \<comment> \<open>\<open>_purge_buffers\<close> and the body only write to the log.\<close>
  "create_buffers = must_be_initialized (\<lambda>s. (Inr (), s))"

definition abort :: "test_camera \<Rightarrow> test_camera" where
  "abort s = (if acquiring s then s\<lparr>acquiring := False\<rparr> else s)"

definition do_disable :: "test_camera \<Rightarrow> test_camera" where
  "do_disable s = abort s"

definition do_enable :: "test_camera \<Rightarrow> (error + bool) \<times> test_camera" where
  "do_enable = must_be_initialized (\<lambda>s.
     let s1 = (if acquiring s then abort s else s)
     in case create_buffers s1 of
          (Inl e, s2) \<Rightarrow> (Inl e, s2)
        | (Inr u, s2) \<Rightarrow> (Inr True, s2\<lparr>acquiring := True, sent := 0\<rparr>))"

definition do_trigger :: "test_camera \<Rightarrow> test_camera" where
  "do_trigger s = (if acquiring s then s\<lparr>triggered := triggered s + 1\<rparr> else s)"

text \<open>
  \<open>_fetch_data\<close>. \<open>time.sleep\<close> raises ValueError on a negative length and \<open>//\<close> raises
  ZeroDivisionError on a zero binning; whatever is raised after \<open>self._triggered -= 1\<close>
  leaves the trigger consumed.
\<close>

definition fetch_data :: "rng \<Rightarrow> test_camera \<Rightarrow> (error + ndarray option) \<times> test_camera" where
  "fetch_data r = must_be_initialized (\<lambda>s.
     if acquiring s \<and> 0 < triggered s then
       if randint 0 100 (fetch_raw r) < error_percent s then (Inl DeviceError, s)
       else if exposure_time s < 0 then (Inl ValueError, s)
       else
         (let s1 = s\<lparr>triggered := triggered s - 1\<rparr>;
              dark = trunc (32 * rand_dark r);
              light = trunc (255 - 128 * rand_light r)
          in if bin_h (binning s1) = 0 \<or> bin_v (binning s1) = 0 then (Inl ZeroDivisionError, s1)
             else
               (let w = roi_width (roi s1) div bin_h (binning s1);
                    h = roi_height (roi s1) div bin_v (binning s1)
                in case get_image (image_gen s1) r w h dark light (Some (sent s1)) of
                     (Inl e, g) \<Rightarrow> (Inl e, s1\<lparr>image_gen := g\<rparr>)
                   | (Inr img, g) \<Rightarrow>
                       (Inr (Some img), s1\<lparr>image_gen := g, sent := sent s1 + 1\<rparr>)))
     else (Inr None, s))"

subsection \<open>Fixtures for evaluation\<close>

text \<open>
  A font of cells 6 pixels wide and 11 high (the cell of PIL's built-in font) and a
  source of random numbers whose raw material is all zero.
\<close>

definition cell_font :: bitmap_font where
  "cell_font = \<lparr>getsize = (\<lambda>t. (6 * length t, 11)), ink = (\<lambda>t x y. even (x + y))\<rparr>"

definition zero_rng :: rng where
  "zero_rng = \<lparr>fetch_raw = 0, rand_dark = 0, rand_light = 0,
               noise_raw = (\<lambda>y x. 0), x0_raw = 0, y0_raw = 0\<rparr>"

text \<open>A camera after \<open>initialize\<close>, enable and one trigger, the start of the spec's scenarios.\<close>

definition armed_camera :: test_camera where
  "armed_camera = do_trigger (snd (do_enable (initialize (new_test_camera cell_font))))"

subsection \<open>Notions used by the statements\<close>


text \<open>The angle that the next call of \<open>sawtooth\<close> on this generator draws.\<close>

definition next_angle :: "image_generator \<Rightarrow> real" where
  "next_angle g = fst (next_theta (theta g))"

text \<open>The generator after a sequence of \<open>sawtooth\<close> calls, one \<open>(w, h, dark, light)\<close> each.\<close>

fun sawtooth_run :: "image_generator \<Rightarrow> (int \<times> int \<times> int \<times> int) list \<Rightarrow> image_generator" where
  "sawtooth_run g [] = g"
| "sawtooth_run g ((w, h, dark, light) # calls) =
     sawtooth_run (snd (sawtooth g w h dark light)) calls"

section \<open>Auxiliary facts\<close>

lemmas eval_simps =
  get_image_def tuple_get_def methods_tuple_def datatypes_tuple_def
  new_image_generator_def set_method_def set_data_type_def enable_numbering_def
  gradient_def noise_def black_def white_def full_def grid_def astype_def Let_def
  trunc_def zero_rng_def cell_font_def paste_def text_size_def text_image_def
  format_d_def digits.simps clip8_def upt_conv_Cons

lemmas camera_simps =
  armed_camera_def do_enable_def must_be_initialized_def create_buffers_def abort_def
  do_disable_def do_trigger_def initialize_def new_test_camera_def set_error_percent_def

subsection \<open>Which errors can be raised\<close>

lemma tuple_get_error: "tuple_get xs i = Inl e \<Longrightarrow> e = IndexError"
  by (auto simp: tuple_get_def Let_def split: if_splits)

lemma paste_error: "paste d H W src sh sw = Inl e \<Longrightarrow> e = ValueError"
  by (auto simp: paste_def split: if_splits)

lemma run_method_error:
  "run_method m g r w h dark light = (Inl e, g') \<Longrightarrow> e = ValueError \<or> e = IndexError"
  by (cases m)
     (auto simp: full_def black_def white_def gradient_def noise_def one_gaussian_def
        np_randint_def sawtooth_def sawtooth_image_def Let_def
        split: sum.splits prod.splits if_splits dest: tuple_get_error)

lemma get_image_error:
  "get_image g r w h dark light idx = (Inl e, g') \<Longrightarrow> e = ValueError \<or> e = IndexError"
  unfolding get_image_def Let_def
  by (auto split: sum.splits prod.splits option.splits if_splits
        dest: tuple_get_error paste_error run_method_error)

subsection \<open>Shapes\<close>






subsection \<open>When a strategy and \<open>get_image\<close> raise\<close>

lemma run_method_raises_iff:
  assumes "1 \<le> w" and "1 \<le> h" and "tuple_get datatypes_tuple (datatype_index g) = Inr d"
  shows "isl (fst (run_method m g r w h dark light)) \<longleftrightarrow> m = Noise \<and> light \<le> dark"
  using assms
  by (cases m)
     (auto simp: full_def black_def white_def gradient_def noise_def one_gaussian_def
        np_randint_def sawtooth_def sawtooth_image_def Let_def
        split: sum.splits prod.splits if_splits)

lemma run_method_keeps_settings:
  "numbering (snd (run_method m g r w h dark light)) = numbering g"
  "font (snd (run_method m g r w h dark light)) = font g"
  by (cases m; simp add: sawtooth_def split: prod.splits)+

lemma get_image_isl_iff:
  assumes "1 \<le> w" and "1 \<le> h"
    and "tuple_get methods_tuple (method_index g) = Inr m"
    and "tuple_get datatypes_tuple (datatype_index g) = Inr d"
  shows "isl (fst (get_image g r w h dark light idx)) \<longleftrightarrow>
           (m = Noise \<and> light \<le> dark)
         \<or> (case idx of
              None \<Rightarrow> False
            | Some i \<Rightarrow> numbering g
                \<and> \<not> (fst (text_size (font g) (format_d i)) \<le> nat w
                       \<and> snd (text_size (font g) (format_d i)) \<le> nat h))"
  using run_method_raises_iff [OF assms(1,2,4), of m r dark light]
    run_method_keeps_settings [of m g r w h dark light] assms(3,4)
  unfolding get_image_def Let_def
  by (auto simp: paste_def split: sum.splits prod.splits option.splits if_splits)

subsection \<open>What \<open>_fetch_data\<close> returns\<close>

lemma fetch_data_DeviceError_iff:
  "fst (fetch_data r s) = Inl DeviceError \<longleftrightarrow>
     initialized s \<and> acquiring s \<and> 0 < triggered s
       \<and> randint 0 100 (fetch_raw r) < error_percent s"
  by (auto simp: fetch_data_def must_be_initialized_def Let_def
        split: sum.splits prod.splits if_splits dest: get_image_error)

lemma fetch_data_None_iff:
  "fst (fetch_data r s) = Inr None \<longleftrightarrow>
     initialized s \<and> \<not> (acquiring s \<and> 0 < triggered s)"
  by (auto simp: fetch_data_def must_be_initialized_def Let_def
        split: sum.splits prod.splits if_splits)

lemma fetch_data_frame:
  assumes "initialized s" and "acquiring s" and "0 < triggered s"
    and "\<not> randint 0 100 (fetch_raw r) < error_percent s"
    and "0 \<le> exposure_time s"
    and "bin_h (binning s) \<noteq> 0" and "bin_v (binning s) \<noteq> 0"
    and "\<not> isl (fst (get_image (image_gen s) r
            (roi_width (roi s) div bin_h (binning s))
            (roi_height (roi s) div bin_v (binning s))
            (trunc (32 * rand_dark r)) (trunc (255 - 128 * rand_light r))
            (Some (sent s))))"
  shows "\<not> isl (fst (fetch_data r s)) \<and> fst (fetch_data r s) \<noteq> Inr None
    \<and> triggered (snd (fetch_data r s)) = triggered s - 1
    \<and> sent (snd (fetch_data r s)) = sent s + 1"
  using assms
  by (auto simp: fetch_data_def must_be_initialized_def Let_def
        split: sum.splits prod.splits)

lemma do_enable_initialized:
  "initialized s \<Longrightarrow> do_enable s = (Inr True, s\<lparr>acquiring := True, sent := 0\<rparr>)"
  by (simp add: do_enable_def must_be_initialized_def create_buffers_def abort_def)

lemma do_enable_uninitialized:
  "\<not> initialized s \<Longrightarrow> do_enable s = (Inl DisabledDeviceError, s)"
  by (simp add: do_enable_def must_be_initialized_def)

subsection \<open>Value ranges\<close>





















subsection \<open>Errors of a configured generator\<close>

lemma run_method_ValueError:
  assumes "tuple_get datatypes_tuple (datatype_index g) = Inr d"
    and "run_method m g r w h dark light = (Inl e, g')"
  shows "e = ValueError"
  using assms
  by (cases m)
     (auto simp: full_def black_def white_def gradient_def noise_def one_gaussian_def
        np_randint_def sawtooth_def sawtooth_image_def Let_def
        split: sum.splits prod.splits if_splits)

lemma get_image_ValueError:
  assumes "tuple_get methods_tuple (method_index g) = Inr m"
    and "tuple_get datatypes_tuple (datatype_index g) = Inr d"
    and "isl (fst (get_image g r w h dark light idx))"
  shows "fst (get_image g r w h dark light idx) = Inl ValueError"
  using assms
  unfolding get_image_def Let_def
  by (auto simp: isl_def split: sum.splits prod.splits option.splits if_splits
        dest: paste_error run_method_ValueError)


subsection \<open>The phase of the sawtooth\<close>

lemma sawtooth_run_append:
  "sawtooth_run g (xs @ ys) = sawtooth_run (sawtooth_run g xs) ys"
  by (induction g xs rule: sawtooth_run.induct) simp_all

lemma next_angle_sawtooth:
  "next_angle (snd (sawtooth g w h dark light)) = fmod (next_angle g + 0.01 * TWOPI) TWOPI"
  by (cases "theta g") (simp_all add: next_angle_def sawtooth_def Let_def)

lemma sawtooth_uses_next_angle:
  "fst (sawtooth g w h dark light) = sawtooth_image (next_angle g) w h dark light"
  by (simp add: next_angle_def sawtooth_def split: prod.splits)

section \<open>The acquisition sequence\<close>

text \<open>
  Claim C1, as the specification has it: after enable, trigger, disable (or abort) and a
  second enable, a fetch returns nothing, because disabling discards the pending trigger.
  The source does otherwise. \<open>abort\<close> only clears \<open>_acquiring\<close> and \<open>_do_enable\<close> only
  resets \<open>_sent\<close>, so on the camera as constructed the trigger is still pending after
  the second enable and the fetch does not return \<open>None\<close>: it returns a frame.
\<close>

theorem pending_trigger_survives_disable_counterexample:
  "triggered (snd (do_enable (do_disable (do_trigger (snd (do_enable
      (initialize (new_test_camera cell_font)))))))) = 1
   \<and> fst (fetch_data zero_rng (snd (do_enable (do_disable (do_trigger (snd (do_enable
      (initialize (new_test_camera cell_font))))))))) \<noteq> Inr None
   \<and> \<not> isl (fst (fetch_data zero_rng (snd (do_enable (do_disable (do_trigger (snd (do_enable
      (initialize (new_test_camera cell_font))))))))))"
proof -
  let ?s = "snd (do_enable (do_disable (do_trigger (snd (do_enable
      (initialize (new_test_camera cell_font)))))))"
  have s: "?s = (new_test_camera cell_font)
      \<lparr>initialized := True, acquiring := True, triggered := 1, sent := 0\<rparr>"
    by (simp add: camera_simps)
  have g: "\<not> isl (fst (get_image (new_image_generator cell_font) zero_rng 512 512 0 255 (Some 0)))"
    by (subst get_image_isl_iff [where m = Noise and d = UInt8])
       (simp_all add: eval_simps)
  have "\<not> isl (fst (fetch_data zero_rng ?s)) \<and> fst (fetch_data zero_rng ?s) \<noteq> Inr None"
    unfolding s
    using g
    by (intro fetch_data_frame [THEN conjunct1] fetch_data_frame [THEN conjunct2, THEN conjunct1] conjI)
       (simp_all add: new_test_camera_def randint_def zero_rng_def trunc_def)
  moreover have "triggered ?s = 1"
    unfolding s by simp
  ultimately show ?thesis by simp
qed

text \<open>
  Claim C1, amended: on an initialised camera whose pending count is not negative, the
  sequence enable, trigger, disable (or abort, which \<open>_do_disable\<close> calls), enable leaves
  one more trigger pending than before and the camera acquiring, so that the following
  fetch, whatever the random draws, does not return nothing.
\<close>

theorem pending_trigger_survives_disable:
  assumes "initialized s" and "0 \<le> triggered s"
  shows "triggered (snd (do_enable (do_disable (do_trigger (snd (do_enable s))))))
           = triggered s + 1
    \<and> acquiring (snd (do_enable (do_disable (do_trigger (snd (do_enable s))))))
    \<and> fst (fetch_data r (snd (do_enable (do_disable (do_trigger (snd (do_enable s)))))))
        \<noteq> Inr None
    \<and> do_disable s = abort s"
  using assms
  by (simp add: fetch_data_None_iff do_enable_initialized do_disable_def abort_def
        do_trigger_def)

theorem pending_trigger_survives_disable_witness:
  "initialized (initialize (new_test_camera cell_font))
   \<and> 0 \<le> triggered (initialize (new_test_camera cell_font))
   \<and> triggered (snd (do_enable (do_disable (do_trigger (snd (do_enable
        (initialize (new_test_camera cell_font)))))))) = 1
   \<and> fst (fetch_data zero_rng (snd (do_enable (do_disable (do_trigger (snd (do_enable
        (initialize (new_test_camera cell_font))))))))) \<noteq> Inr None"
proof -
  have h: "initialized (initialize (new_test_camera cell_font))"
    "0 \<le> triggered (initialize (new_test_camera cell_font))"
    by (simp_all add: initialize_def new_test_camera_def)
  have t: "triggered (initialize (new_test_camera cell_font)) = 0"
    by (simp add: initialize_def new_test_camera_def)
  show ?thesis
    using h pending_trigger_survives_disable [OF h, of zero_rng] by (simp add: t)
qed

text \<open>
  Claim C2, as the specification has it: for every prior state, immediately after
  \<open>enable()\<close> the pending-trigger count is 0 and the sent-frame counter is 0. The counter
  of sent frames is reset, the pending count is not: enabling the armed camera again
  leaves its one trigger pending.
\<close>

theorem enable_resets_pending_counterexample:
  "fst (do_enable armed_camera) = Inr True
   \<and> triggered (snd (do_enable armed_camera)) = 1"
  by (simp add: camera_simps)

text \<open>
  Claim C2, amended: for every initialised prior state, \<open>_do_enable\<close> succeeds, and
  immediately after it the camera is acquiring, the sent-frame counter is 0 and the
  pending-trigger count is what it was before.
\<close>

theorem enable_resets_sent_only:
  "initialized s \<Longrightarrow>
     fst (do_enable s) = Inr True
     \<and> acquiring (snd (do_enable s))
     \<and> sent (snd (do_enable s)) = 0
     \<and> triggered (snd (do_enable s)) = triggered s"
  by (simp add: do_enable_initialized)

theorem enable_resets_sent_only_witness:
  "initialized armed_camera
   \<and> fst (do_enable armed_camera) = Inr True
   \<and> acquiring (snd (do_enable armed_camera))
   \<and> sent (snd (do_enable armed_camera)) = 0
   \<and> triggered (snd (do_enable armed_camera)) = triggered armed_camera"
proof -
  have h: "initialized armed_camera"
    by (simp add: camera_simps)
  show ?thesis
    using h enable_resets_sent_only [OF h] by simp
qed

text \<open>
  Claim C3: when \<open>_fetch_data\<close> raises the injected DeviceError (the specification's
  SimulatedAcquisitionError), the camera is exactly as before: the pending count is not
  decremented and the sent counter is not advanced. The trigger is still pending, so a
  later fetch, with any draws \<open>r'\<close>, is again a fetchable call and does not return nothing.
\<close>

theorem injected_error_leaves_state:
  assumes "fst (fetch_data r s) = Inl DeviceError"
  shows "snd (fetch_data r s) = s
    \<and> triggered (snd (fetch_data r s)) = triggered s
    \<and> sent (snd (fetch_data r s)) = sent s
    \<and> acquiring s \<and> 0 < triggered s
    \<and> fst (fetch_data r' (snd (fetch_data r s))) \<noteq> Inr None"
proof -
  from assms have c: "initialized s" "acquiring s" "0 < triggered s"
    "randint 0 100 (fetch_raw r) < error_percent s"
    by (simp_all add: fetch_data_DeviceError_iff)
  then have "snd (fetch_data r s) = s"
    by (simp add: fetch_data_def must_be_initialized_def)
  with c show ?thesis
    by (simp add: fetch_data_None_iff)
qed

theorem injected_error_leaves_state_witness:
  "fst (fetch_data zero_rng (set_error_percent armed_camera 100)) = Inl DeviceError
   \<and> snd (fetch_data zero_rng (set_error_percent armed_camera 100))
       = set_error_percent armed_camera 100
   \<and> triggered (snd (fetch_data zero_rng (set_error_percent armed_camera 100))) = 1
   \<and> sent (snd (fetch_data zero_rng (set_error_percent armed_camera 100))) = 0"
proof -
  have h: "fst (fetch_data zero_rng (set_error_percent armed_camera 100)) = Inl DeviceError"
    by (simp add: fetch_data_DeviceError_iff camera_simps randint_def zero_rng_def)
  have t: "triggered (set_error_percent armed_camera 100) = 1"
    "sent (set_error_percent armed_camera 100) = 0"
    by (simp_all add: camera_simps)
  show ?thesis
    using h injected_error_leaves_state [OF h, of zero_rng] by (simp add: t)
qed

text \<open>
  Claim C4 says that the draw lies in \<open>[0, 100)\<close>, so that an error rate of 100 makes
  every fetchable call fail. The source draws with \<open>random.randint(0, 100)\<close>, which
  includes 100: on the armed camera with \<open>_error_percent = 100\<close>, the draw 100 is not
  below the rate, and the fetch delivers frame 0 and consumes the trigger.
\<close>

theorem error_rate_100_draw_100_delivers:
  "error_percent (set_error_percent armed_camera 100) = 100
   \<and> acquiring (set_error_percent armed_camera 100)
   \<and> triggered (set_error_percent armed_camera 100) = 1
   \<and> randint 0 100 (fetch_raw (zero_rng\<lparr>fetch_raw := 100\<rparr>)) = 100
   \<and> fst (fetch_data (zero_rng\<lparr>fetch_raw := 100\<rparr>) (set_error_percent armed_camera 100))
        \<noteq> Inl DeviceError
   \<and> \<not> isl (fst (fetch_data (zero_rng\<lparr>fetch_raw := 100\<rparr>)
        (set_error_percent armed_camera 100)))
   \<and> fst (fetch_data (zero_rng\<lparr>fetch_raw := 100\<rparr>) (set_error_percent armed_camera 100))
        \<noteq> Inr None
   \<and> triggered (snd (fetch_data (zero_rng\<lparr>fetch_raw := 100\<rparr>)
        (set_error_percent armed_camera 100))) = 0
   \<and> sent (snd (fetch_data (zero_rng\<lparr>fetch_raw := 100\<rparr>)
        (set_error_percent armed_camera 100))) = 1"
proof -
  let ?r = "zero_rng\<lparr>fetch_raw := 100\<rparr>"
  let ?s = "set_error_percent armed_camera 100"
  have s: "?s = (new_test_camera cell_font)
      \<lparr>initialized := True, acquiring := True, triggered := 1, sent := 0,
       error_percent := 100, a_setting := 10\<rparr>"
    by (simp add: camera_simps)
  have d: "randint 0 100 (fetch_raw ?r) = 100"
    by (simp add: randint_def)
  have g: "\<not> isl (fst (get_image (new_image_generator cell_font) ?r 512 512 0 255 (Some 0)))"
    by (subst get_image_isl_iff [where m = Noise and d = UInt8])
       (simp_all add: eval_simps)
  have f: "\<not> isl (fst (fetch_data ?r ?s)) \<and> fst (fetch_data ?r ?s) \<noteq> Inr None
    \<and> triggered (snd (fetch_data ?r ?s)) = triggered ?s - 1
    \<and> sent (snd (fetch_data ?r ?s)) = sent ?s + 1"
    unfolding s
    using g
    by (intro fetch_data_frame)
       (simp_all add: new_test_camera_def randint_def zero_rng_def trunc_def)
  have n: "fst (fetch_data ?r ?s) \<noteq> Inl DeviceError"
    using f by auto
  show ?thesis
    using f n d by (simp add: s)
qed

text \<open>
  Claim C9: writing \<open>v\<close> to the setting "\_error\_percent" stores \<open>v\<close> as the error rate and
  overwrites "a\_setting" with \<open>v // 10\<close>, whatever value \<open>a\<close> had been written to
  "a\_setting" before.
\<close>

theorem set_error_percent_overwrites_a_setting:
  "error_percent (set_error_percent s v) = v
   \<and> a_setting (set_error_percent s v) = v div 10
   \<and> a_setting (set_error_percent (set_a_setting s a) v) = v div 10"
  by (simp add: set_error_percent_def set_a_setting_def)

section \<open>The image generator\<close>




text \<open>
  Claim C6, as the specification has it: no strategy raises when \<open>dark > light\<close>. The
  noise strategy passes both bounds to \<open>np.random.randint\<close>, which raises ValueError
  unless \<open>dark < light\<close>.
\<close>

theorem noise_dark_above_light_counterexample:
  "noise zero_rng 16 16 200 100 = Inl ValueError
   \<and> fst (get_image (new_image_generator cell_font) zero_rng 16 16 200 100 None) = Inl ValueError"
  by (simp add: eval_simps)

text \<open>
  Claim C6, amended: for \<open>w, h \<ge> 1\<close> and a generator whose two indices are valid, every
  strategy other than noise returns an array for all \<open>dark\<close> and \<open>light\<close>, in particular
  when \<open>dark > light\<close>, and so does \<open>get_image\<close> without a frame index; noise raises
  exactly when \<open>dark \<ge> light\<close>, and what it raises is ValueError.
\<close>

theorem dark_above_light_only_noise_raises:
  assumes "1 \<le> w" and "1 \<le> h"
    and m: "tuple_get methods_tuple (method_index g) = Inr m"
    and d: "tuple_get datatypes_tuple (datatype_index g) = Inr d"
  shows "(if m = Noise
          then (isl (fst (run_method m g r w h dark light)) \<longleftrightarrow> light \<le> dark)
             \<and> (fst (run_method m g r w h dark light) = Inl ValueError \<longleftrightarrow> light \<le> dark)
          else \<not> isl (fst (run_method m g r w h dark light)))
    \<and> (if m = Noise
          then (isl (fst (get_image g r w h dark light None)) \<longleftrightarrow> light \<le> dark)
             \<and> (fst (get_image g r w h dark light None) = Inl ValueError \<longleftrightarrow> light \<le> dark)
          else \<not> isl (fst (get_image g r w h dark light None)))"
proof -
  have 1: "isl (fst (run_method m g r w h dark light)) \<longleftrightarrow> m = Noise \<and> light \<le> dark"
    using run_method_raises_iff [OF assms(1,2) d, of m r dark light] .
  have 2: "isl (fst (get_image g r w h dark light None)) \<longleftrightarrow> m = Noise \<and> light \<le> dark"
    using get_image_isl_iff [OF assms(1,2) m d, of r dark light None] by simp
  have 3: "fst (run_method m g r w h dark light) = Inl ValueError"
    if "isl (fst (run_method m g r w h dark light))"
    using that run_method_ValueError [OF d, of m r w h dark light]
    by (cases "run_method m g r w h dark light") (auto simp: isl_def)
  have 4: "fst (get_image g r w h dark light None) = Inl ValueError"
    if "isl (fst (get_image g r w h dark light None))"
    using that by (rule get_image_ValueError [OF m d])
  from 1 3 have 5: "fst (run_method m g r w h dark light) = Inl ValueError
      \<longleftrightarrow> m = Noise \<and> light \<le> dark"
    by auto
  from 2 4 have 6: "fst (get_image g r w h dark light None) = Inl ValueError
      \<longleftrightarrow> m = Noise \<and> light \<le> dark"
    by auto
  show ?thesis
    unfolding 1 2 5 6 by auto
qed

theorem dark_above_light_only_noise_raises_witness:
  "\<not> isl (fst (get_image (set_method (new_image_generator cell_font) 1) zero_rng 2 1 255 31 None))
   \<and> fst (get_image (set_method (new_image_generator cell_font) 1) zero_rng 2 1 255 31 None)
      = Inr [[Fin 255, Fin 30]]
   \<and> fst (run_method Noise (new_image_generator cell_font) zero_rng 2 2 7 7) = Inl ValueError
   \<and> fst (get_image (new_image_generator cell_font) zero_rng 2 2 7 7 None) = Inl ValueError
   \<and> \<not> isl (fst (get_image (new_image_generator cell_font) zero_rng 2 2 7 8 None))"
proof -
  let ?g = "set_method (new_image_generator cell_font) 1"
  let ?n = "new_image_generator cell_font"
  have m: "tuple_get methods_tuple (method_index ?g) = Inr Gradient"
    and d: "tuple_get datatypes_tuple (datatype_index ?g) = Inr UInt8"
    by (simp_all add: eval_simps)
  have m': "tuple_get methods_tuple (method_index ?n) = Inr Noise"
    and d': "tuple_get datatypes_tuple (datatype_index ?n) = Inr UInt8"
    by (simp_all add: eval_simps)
  have v: "fst (get_image ?g zero_rng 2 1 255 31 None) = Inr [[Fin 255, Fin 30]]"
    by (simp add: eval_simps)
  show ?thesis
    using v dark_above_light_only_noise_raises [OF _ _ m d, of 2 1 zero_rng 255 31]
      dark_above_light_only_noise_raises [OF _ _ m' d', of 2 2 zero_rng 7 7]
      dark_above_light_only_noise_raises [OF _ _ m' d', of 2 2 zero_rng 7 8]
    by simp
qed

text \<open>
  Claim C7, as the specification has it: \<open>get_image\<close> raises for no request with
  \<open>w, h \<ge> 1\<close>. With the numbering on and a frame index, the bitmap of the counter is
  assigned to a slice of the frame; a frame of one pixel is smaller than any such bitmap
  (at least 2 by 2), and the assignment raises ValueError.
\<close>

theorem small_frame_overlay_counterexample:
  "fst (get_image (new_image_generator cell_font) zero_rng 1 1 0 255 (Some 0)) = Inl ValueError"
  by (simp add: eval_simps)

text \<open>
  Claim C7, amended: for \<open>w, h \<ge> 1\<close> and a generator whose two indices are valid,
  \<open>get_image\<close> raises exactly when the strategy is noise and \<open>light \<le> dark\<close>, or when
  the numbering is on, a frame index is given and the bitmap of its decimal text (the
  size of the text plus 2 in each direction) is wider than \<open>w\<close> or higher than \<open>h\<close>;
  what it raises is ValueError. In every other case it returns a frame.
\<close>

theorem get_image_raises_iff:
  assumes "1 \<le> w" and "1 \<le> h"
    and m: "tuple_get methods_tuple (method_index g) = Inr m"
    and d: "tuple_get datatypes_tuple (datatype_index g) = Inr d"
  shows "(isl (fst (get_image g r w h dark light idx)) \<longleftrightarrow>
           (m = Noise \<and> light \<le> dark)
         \<or> (case idx of
              None \<Rightarrow> False
            | Some i \<Rightarrow> numbering g
                \<and> \<not> (fst (text_size (font g) (format_d i)) \<le> nat w
                       \<and> snd (text_size (font g) (format_d i)) \<le> nat h)))
    \<and> (isl (fst (get_image g r w h dark light idx)) \<longleftrightarrow>
          fst (get_image g r w h dark light idx) = Inl ValueError)"
  using get_image_isl_iff [OF assms, of r dark light idx]
    get_image_ValueError [OF m d, of r w h dark light idx]
  by auto

theorem get_image_raises_iff_witness:
  "isl (fst (get_image (new_image_generator cell_font) zero_rng 10 10 0 255 (Some 7)))
   \<and> \<not> isl (fst (get_image (new_image_generator cell_font) zero_rng 512 512 0 255 (Some 7)))"
proof -
  let ?g = "new_image_generator cell_font"
  have m: "tuple_get methods_tuple (method_index ?g) = Inr Noise"
    and d: "tuple_get datatypes_tuple (datatype_index ?g) = Inr UInt8"
    by (simp_all add: eval_simps)
  have t: "text_size (font ?g) (format_d 7) = (8, 13)" "numbering ?g"
    by (simp_all add: eval_simps)
  show ?thesis
    using get_image_raises_iff [OF _ _ m d, of 10 10 zero_rng 0 255 "Some 7"]
      get_image_raises_iff [OF _ _ m d, of 512 512 zero_rng 0 255 "Some 7"]
    by (simp add: t)
qed

text \<open>
  Claim C8: on one generator, each \<open>sawtooth\<close> call draws the frame with the angle the
  generator holds for it, and after any sequence of calls the angle of the next call is
  the angle of the last one advanced by \<open>0.01 * 2\<pi>\<close> and reduced modulo \<open>2\<pi>\<close>; the first
  angle of a new generator is 0.
\<close>

theorem sawtooth_angle_advances:
  "fst (sawtooth (sawtooth_run g calls) w h dark light)
     = sawtooth_image (next_angle (sawtooth_run g calls)) w h dark light
   \<and> next_angle (sawtooth_run g (calls @ [(w, h, dark, light)]))
     = fmod (next_angle (sawtooth_run g calls) + 0.01 * (2 * pi)) (2 * pi)
   \<and> next_angle (new_image_generator f) = 0"
proof -
  have a: "next_angle (sawtooth_run g (calls @ [(w, h, dark, light)]))
     = fmod (next_angle (sawtooth_run g calls) + 0.01 * TWOPI) TWOPI"
    by (simp add: sawtooth_run_append next_angle_sawtooth)
  have b: "next_angle (new_image_generator f) = 0"
    by (simp add: next_angle_def new_image_generator_def)
  from a [unfolded TWOPI_def] b show ?thesis
    by (simp add: sawtooth_uses_next_angle)
qed

text \<open>
  Claim C10: when the selected strategy is not sawtooth, \<open>get_image\<close> leaves the
  generator as it was, whether it returns or raises; in particular the phase generator,
  and with it the angle of the next sawtooth frame, is unchanged.
\<close>

theorem other_strategies_keep_theta:
  assumes "tuple_get methods_tuple (method_index g) \<noteq> Inr Sawtooth"
  shows "snd (get_image g r w h dark light idx) = g
    \<and> theta (snd (get_image g r w h dark light idx)) = theta g
    \<and> next_angle (snd (get_image g r w h dark light idx)) = next_angle g"
proof -
  have "snd (run_method m g r w h dark light) = g" if "m \<noteq> Sawtooth" for m
    using that by (cases m) simp_all
  then have "snd (get_image g r w h dark light idx) = g"
    using assms
    unfolding get_image_def Let_def
    by (fastforce split: sum.splits prod.splits option.splits if_splits)
  then show ?thesis by simp
qed

theorem other_strategies_keep_theta_witness:
  "tuple_get methods_tuple (method_index (new_image_generator cell_font)) \<noteq> Inr Sawtooth
   \<and> snd (get_image (new_image_generator cell_font) zero_rng 2 2 0 255 None)
       = new_image_generator cell_font"
proof -
  have h: "tuple_get methods_tuple (method_index (new_image_generator cell_font)) \<noteq> Inr Sawtooth"
    by (simp add: eval_simps)
  show ?thesis
    using h other_strategies_keep_theta [OF h, of zero_rng 2 2 0 255 None] by simp
qed

end
